theory Spec2Isabelle
  imports Main "HOL-Library.Word"
begin

unbundle bit_operations_syntax

section \<open>GoLogger: a shallow embedding of \<^verbatim>\<open>logger.go\<close>\<close>

text \<open>
  The embedding follows \<^verbatim>\<open>logger.go\<close> function by function.
  \<^item> \<^verbatim>\<open>Level\<close> is Go's \<^verbatim>\<open>int\<close>; it is modelled as \<open>int\<close>. No arithmetic is done on
    levels, only comparisons and the conversion \<^verbatim>\<open>int32(level)\<close>, which keeps the low 32
    bits. That conversion is written out (\<open>int32\<close>), and the stored level is a
    \<open>32 word\<close> read as a signed number, as \<^verbatim>\<open>atomic.LoadInt32\<close> does. On the 64-bit
    targets of Go an \<^verbatim>\<open>int\<close> has 64 bits, so the conversion does lose bits there.
  \<^item> A \<^verbatim>\<open>*logger\<close> is an address into a heap of logger records (the list
    \<open>loggers\<close>); \<^verbatim>\<open>New\<close> allocates the next address.
  \<^item> An \<^verbatim>\<open>io.Writer\<close> is a reference into a store of sinks. A sink records every
    byte slice passed to \<^verbatim>\<open>Write\<close> and answers with an error when it is a failing one.
  \<^item> \<^verbatim>\<open>os.Exit\<close> and a run-time panic are outcomes of a call, next to a normal return.
  \<^item> \<^verbatim>\<open>time.Now()\<close> and the formatting functions of package \<^verbatim>\<open>fmt\<close> are inputs of
    the model: the time is an argument, the three renderers are a record of functions.
  \<^item> The mutex only serialises concurrent callers; the model is sequential and has no
    counterpart of \<^verbatim>\<open>Lock\<close> and \<^verbatim>\<open>Unlock\<close>.
\<close>

subsection \<open>Levels, flags and the two tables\<close>

type_synonym Level = int

definition LevelQuiet :: Level where "LevelQuiet = 0"
definition LevelFatal :: Level where "LevelFatal = 1"
definition LevelError :: Level where "LevelError = 2"
definition LevelWarn :: Level where "LevelWarn = 3"
definition LevelInfo :: Level where "LevelInfo = 4"
definition LevelDebug :: Level where "LevelDebug = 5"
definition LevelTrace :: Level where "LevelTrace = 6"

text \<open>\<^verbatim>\<open>FlagColorMode = 1 << iota\<close> with \<^verbatim>\<open>iota = 0\<close>.\<close>

definition FlagColorMode :: int where "FlagColorMode = push_bit (0::nat) 1"

text \<open>The conversions \<^verbatim>\<open>int32(level)\<close> and \<^verbatim>\<open>Level(x)\<close> for an \<^verbatim>\<open>int32\<close> \<^verbatim>\<open>x\<close>.\<close>

definition int32 :: "Level \<Rightarrow> 32 word" where
  "int32 x = word_of_int x"

definition Level_of :: "32 word \<Rightarrow> Level" where
  "Level_of x = sint x"

definition ESC :: char where "ESC = CHR 0x1B"
definition NL :: char where "NL = CHR 0x0A"

definition levelPrefixes :: "Level \<rightharpoonup> string" where
  "levelPrefixes =
     [LevelFatal \<mapsto> ''F'', LevelError \<mapsto> ''E'', LevelWarn \<mapsto> ''W'',
      LevelInfo \<mapsto> ''I'', LevelDebug \<mapsto> ''D'', LevelTrace \<mapsto> ''T'']"

definition levelColors :: "Level \<rightharpoonup> string" where
  "levelColors =
     [LevelFatal \<mapsto> ESC # ''[31;1m'', LevelError \<mapsto> ESC # ''[31m'',
      LevelWarn \<mapsto> ESC # ''[33;1m'', LevelInfo \<mapsto> ESC # ''[32m'',
      LevelDebug \<mapsto> ESC # ''[34;1m'', LevelTrace \<mapsto> ESC # ''[36m'']"

subsection \<open>\<^verbatim>\<open>iToA\<close>\<close>

text \<open>Go's integer division truncates towards zero.\<close>

definition quo :: "int \<Rightarrow> int \<Rightarrow> int" where
  "quo a b = (if (a < 0) = (b < 0) then \<bar>a\<bar> div \<bar>b\<bar> else - (\<bar>a\<bar> div \<bar>b\<bar>))"

text \<open>
  The loop of \<^verbatim>\<open>iToA\<close>. The array \<^verbatim>\<open>b\<close> has 20 bytes and is filled from the right:
  \<open>acc\<close> is \<^verbatim>\<open>b[bp+1:]\<close>. A write at \<^verbatim>\<open>b[bp]\<close> with \<^verbatim>\<open>bp < 0\<close> is an index out of
  range, a run-time panic (\<open>None\<close>). \<^verbatim>\<open>byte(x)\<close> keeps the low 8 bits, as \<open>char_of\<close>
  does.
\<close>

function iToA_loop :: "int \<Rightarrow> int \<Rightarrow> int \<Rightarrow> string \<Rightarrow> (int \<times> int \<times> string) option" where
  "iToA_loop i wid bp acc =
     (if i \<ge> 10 \<or> wid > 1 then
        (let q = quo i 10 in
           if bp < 0 then None
           else iToA_loop q (wid - 1) (bp - 1) (char_of (48 + i - q * 10) # acc))
      else Some (i, bp, acc))"
  by pat_completeness auto
termination
  by (relation "measure (\<lambda>(i, wid, bp, acc). nat (bp + 1))") auto

declare iToA_loop.simps [simp del]

definition iToA :: "string \<Rightarrow> int \<Rightarrow> int \<Rightarrow> string option" where
  "iToA buf i wid =
     (case iToA_loop i wid 19 [] of
        None \<Rightarrow> None
      | Some (i', bp, acc) \<Rightarrow>
          if bp < 0 then None else Some (buf @ char_of (48 + i') # acc))"

subsection \<open>The logger, the sinks and the heap\<close>

record logger =
  level :: "32 word"
  prefix :: string
  flags :: int
  out :: nat
  buf :: string

datatype error = WriteError

record sink =
  received :: "string list"
  failing :: bool

text \<open>\<^verbatim>\<open>Write\<close> on a sink: the call is recorded, a failing sink returns an error.\<close>

definition Write :: "sink \<Rightarrow> string \<Rightarrow> sink \<times> error option" where
  "Write s b =
     (s\<lparr>received := received s @ [b]\<rparr>, if failing s then Some WriteError else None)"

record world =
  loggers :: "logger list"
  sinks :: "nat \<Rightarrow> sink"

definition is_logger :: "world \<Rightarrow> nat \<Rightarrow> bool" where
  "is_logger w a \<longleftrightarrow> a < length (loggers w)"

definition update_logger :: "world \<Rightarrow> nat \<Rightarrow> (logger \<Rightarrow> logger) \<Rightarrow> world" where
  "update_logger w a f = w\<lparr>loggers := (loggers w)[a := f (loggers w ! a)]\<rparr>"

datatype outcome = Returned | Exited int | Panicked

text \<open>Wall-clock time in seconds; \<^verbatim>\<open>t.Clock()\<close> gives hour, minute and second.\<close>

type_synonym Time = nat

definition Clock :: "Time \<Rightarrow> int \<times> int \<times> int" where
  "Clock t = (int (t div 3600 mod 24), int (t div 60 mod 60), int (t mod 60))"

text \<open>The renderers \<^verbatim>\<open>fmt.Sprint\<close>, \<^verbatim>\<open>fmt.Sprintln\<close> and \<^verbatim>\<open>fmt.Sprintf\<close> over values \<open>'v\<close>.\<close>

record 'v fmt =
  Sprint :: "'v list \<Rightarrow> string"
  Sprintln :: "'v list \<Rightarrow> string"
  Sprintf :: "string \<Rightarrow> 'v list \<Rightarrow> string"

subsection \<open>Accessors\<close>

definition SetLevel :: "world \<Rightarrow> nat \<Rightarrow> Level \<Rightarrow> world" where
  "SetLevel w a lvl =
     (let lvl = (if lvl < LevelQuiet then LevelQuiet
                 else if lvl > LevelTrace then LevelTrace
                 else lvl)
      in update_logger w a (\<lambda>l. l\<lparr>level := int32 lvl\<rparr>))"

definition GetLevel :: "world \<Rightarrow> nat \<Rightarrow> Level" where
  "GetLevel w a = Level_of (level (loggers w ! a))"

definition SetFlags :: "world \<Rightarrow> nat \<Rightarrow> int \<Rightarrow> world" where
  "SetFlags w a f = update_logger w a (\<lambda>l. l\<lparr>flags := f\<rparr>)"

definition GetFlags :: "world \<Rightarrow> nat \<Rightarrow> int" where
  "GetFlags w a = flags (loggers w ! a)"

definition SetPrefix :: "world \<Rightarrow> nat \<Rightarrow> string \<Rightarrow> world" where
  "SetPrefix w a p = update_logger w a (\<lambda>l. l\<lparr>prefix := p\<rparr>)"

definition GetPrefix :: "world \<Rightarrow> nat \<Rightarrow> string" where
  "GetPrefix w a = prefix (loggers w ! a)"

definition SetOutput :: "world \<Rightarrow> nat \<Rightarrow> nat \<Rightarrow> world" where
  "SetOutput w a k = update_logger w a (\<lambda>l. l\<lparr>out := k\<rparr>)"

definition GetOutput :: "world \<Rightarrow> nat \<Rightarrow> nat" where
  "GetOutput w a = out (loggers w ! a)"

subsection \<open>Building and writing a line\<close>

text \<open>
  \<^verbatim>\<open>buildHeader\<close> appends to \<^verbatim>\<open>*buf\<close>. When \<^verbatim>\<open>iToA\<close> panics, the buffer keeps what
  was appended before (\<open>Inl\<close>); otherwise the header is complete (\<open>Inr\<close>).
\<close>

definition buildHeader :: "logger \<Rightarrow> Level \<Rightarrow> string \<Rightarrow> Time \<Rightarrow> string + string" where
  "buildHeader l lvl b t =
     (let pref = (case levelPrefixes lvl of Some p \<Rightarrow> p | None \<Rightarrow> []);
          b = b @ pref;
          b = b @ ''/'';
          (hour, min, sec) = Clock t
      in case iToA b hour 2 of None \<Rightarrow> Inl b | Some b \<Rightarrow>
         (let b = b @ '':'' in
          case iToA b min 2 of None \<Rightarrow> Inl b | Some b \<Rightarrow>
          (let b = b @ '':'' in
           case iToA b sec 2 of None \<Rightarrow> Inl b | Some b \<Rightarrow>
           (let b = b @ '' '';
                b = b @ prefix l;
                b = b @ '': ''
            in Inr b))))"

text \<open>
  \<^verbatim>\<open>printOut\<close>: \<open>Inl ()\<close> is a panic, \<open>Inr e\<close> the returned error value.
\<close>

definition printOut :: "Time \<Rightarrow> world \<Rightarrow> nat \<Rightarrow> Level \<Rightarrow> string \<Rightarrow> (unit + error option) \<times> world" where
  "printOut now w a lvl s =
     (let l = loggers w ! a;
          b = [];
          hasColor = (levelColors lvl \<noteq> None \<and> flags l AND FlagColorMode \<noteq> 0);
          b = (if hasColor then b @ the (levelColors lvl) else b)
      in case buildHeader l lvl b now of
           Inl b \<Rightarrow> (Inl (), update_logger w a (\<lambda>l. l\<lparr>buf := b\<rparr>))
         | Inr b \<Rightarrow>
            (let b = b @ s;
                 b = (if length s = 0 \<or> last s \<noteq> NL then b @ [NL] else b);
                 b = (if hasColor then b @ ESC # ''[0m'' else b);
                 (snk, e) = Write (sinks w (out l)) b
             in (Inr e,
                 (update_logger w a (\<lambda>l. l\<lparr>buf := b\<rparr>))\<lparr>sinks := (sinks w)(out l := snk)\<rparr>)))"

subsection \<open>The three emitting methods\<close>

definition logger_Print :: "'v fmt \<Rightarrow> Time \<Rightarrow> world \<Rightarrow> nat \<Rightarrow> Level \<Rightarrow> 'v list \<Rightarrow> outcome \<times> world" where
  "logger_Print F now w a lvl v =
     (if sint (level (loggers w ! a)) < sint (int32 lvl) then
        (if lvl = LevelFatal then (Exited 1, w) else (Returned, w))
      else
        (case printOut now w a lvl (Sprint F v) of
           (Inl _, w') \<Rightarrow> (Panicked, w')
         | (Inr _, w') \<Rightarrow> if lvl = LevelFatal then (Exited 1, w') else (Returned, w')))"

definition logger_Println :: "'v fmt \<Rightarrow> Time \<Rightarrow> world \<Rightarrow> nat \<Rightarrow> Level \<Rightarrow> 'v list \<Rightarrow> outcome \<times> world" where
  "logger_Println F now w a lvl v =
     (if sint (level (loggers w ! a)) < sint (int32 lvl) then
        (if lvl = LevelFatal then (Exited 1, w) else (Returned, w))
      else
        (case printOut now w a lvl (Sprintln F v) of
           (Inl _, w') \<Rightarrow> (Panicked, w')
         | (Inr _, w') \<Rightarrow> if lvl = LevelFatal then (Exited 1, w') else (Returned, w')))"

definition logger_Printf :: "'v fmt \<Rightarrow> Time \<Rightarrow> world \<Rightarrow> nat \<Rightarrow> Level \<Rightarrow> string \<Rightarrow> 'v list \<Rightarrow> outcome \<times> world" where
  "logger_Printf F now w a lvl format v =
     (if sint (level (loggers w ! a)) < sint (int32 lvl) then
        (if lvl \<le> LevelFatal then (Exited 1, w) else (Returned, w))
      else
        (case printOut now w a lvl (Sprintf F format v) of
           (Inl _, w') \<Rightarrow> (Panicked, w')
         | (Inr _, w') \<Rightarrow> if lvl \<le> LevelFatal then (Exited 1, w') else (Returned, w')))"

subsection \<open>\<^verbatim>\<open>New\<close>, \<^verbatim>\<open>Clone\<close> and the default instance\<close>

definition New :: "world \<Rightarrow> Level \<Rightarrow> string \<Rightarrow> nat \<Rightarrow> int \<Rightarrow> nat \<times> world" where
  "New w lvl p k f =
     (length (loggers w),
      w\<lparr>loggers := loggers w @
          [\<lparr>level = int32 lvl, prefix = p, flags = f, out = k, buf = []\<rparr>]\<rparr>)"

definition Clone :: "world \<Rightarrow> nat \<Rightarrow> nat \<times> world" where
  "Clone w a =
     (let l = loggers w ! a
      in New w (Level_of (level l)) (prefix l) (out l) (flags l))"

text \<open>
  \<^verbatim>\<open>var std = New(LevelWarn, "", os.Stderr, 0)\<close> runs once, on the empty heap, so
  \<^verbatim>\<open>std\<close> is the first address. \<^verbatim>\<open>os.Stderr\<close> is the sink numbered 0.
\<close>

definition Stderr :: nat where "Stderr = 0"

definition start :: "(nat \<Rightarrow> sink) \<Rightarrow> nat \<times> world" where
  "start S = New \<lparr>loggers = [], sinks = S\<rparr> LevelWarn [] Stderr 0"

definition std :: nat where "std = 0"

definition GetDefault :: "world \<Rightarrow> nat" where
  "GetDefault w = std"

definition NewDefault :: "world \<Rightarrow> nat \<times> world" where
  "NewDefault w = Clone w std"

definition Print :: "'v fmt \<Rightarrow> Time \<Rightarrow> world \<Rightarrow> Level \<Rightarrow> 'v list \<Rightarrow> outcome \<times> world" where
  "Print F now w lvl v = logger_Print F now w std lvl v"

definition Printf :: "'v fmt \<Rightarrow> Time \<Rightarrow> world \<Rightarrow> Level \<Rightarrow> string \<Rightarrow> 'v list \<Rightarrow> outcome \<times> world" where
  "Printf F now w lvl format v = logger_Printf F now w std lvl format v"

definition Println :: "'v fmt \<Rightarrow> Time \<Rightarrow> world \<Rightarrow> Level \<Rightarrow> string \<Rightarrow> 'v list \<Rightarrow> outcome \<times> world" where
  "Println F now w lvl format v = logger_Printf F now w std lvl format v"

subsection \<open>The line format in the words of the specification\<close>

text \<open>
  The layout of a line as the specification gives it: an optional colour start, the
  level letter, \<^verbatim>\<open>/\<close>, the time as \<^verbatim>\<open>HH:MM:SS\<close> with two zero-padded digits each, a
  space, the prefix, \<^verbatim>\<open>: \<close>, the message, a newline unless the message ends with one,
  and the colour reset. These definitions do not come from the code; the code is
  compared with them below.
\<close>

definition digit_char :: "nat \<Rightarrow> char" where
  "digit_char d = ''0123456789'' ! d"

definition spec_two_digits :: "nat \<Rightarrow> string" where
  "spec_two_digits n = [digit_char (n div 10), digit_char (n mod 10)]"

definition spec_timestamp :: "Time \<Rightarrow> string" where
  "spec_timestamp t =
     spec_two_digits (t div 3600 mod 24) @ '':'' @
     spec_two_digits (t div 60 mod 60) @ '':'' @
     spec_two_digits (t mod 60)"

definition spec_LevelChar :: "Level \<Rightarrow> string" where
  "spec_LevelChar lvl =
     (if lvl = LevelFatal then ''F'' else if lvl = LevelError then ''E''
      else if lvl = LevelWarn then ''W'' else if lvl = LevelInfo then ''I''
      else if lvl = LevelDebug then ''D'' else if lvl = LevelTrace then ''T''
      else [])"

definition spec_header :: "string \<Rightarrow> Level \<Rightarrow> Time \<Rightarrow> string" where
  "spec_header p lvl t = spec_LevelChar lvl @ ''/'' @ spec_timestamp t @ '' '' @ p @ '': ''"

definition colored :: "logger \<Rightarrow> Level \<Rightarrow> bool" where
  "colored l lvl \<longleftrightarrow> LevelFatal \<le> lvl \<and> lvl \<le> LevelTrace \<and> flags l AND FlagColorMode \<noteq> 0"

definition spec_line :: "logger \<Rightarrow> Level \<Rightarrow> Time \<Rightarrow> string \<Rightarrow> string" where
  "spec_line l lvl t s =
     (if colored l lvl then the (levelColors lvl) else []) @
     spec_header (prefix l) lvl t @ s @
     (if s \<noteq> [] \<and> last s = NL then [] else [NL]) @
     (if colored l lvl then ESC # ''[0m'' else [])"

subsection \<open>Fixtures for closed examples\<close>

text \<open>
  A renderer over string operands: \<^verbatim>\<open>Sprint\<close> puts no space between two strings,
  \<^verbatim>\<open>Sprintln\<close> separates the operands by one space and ends the line, \<^verbatim>\<open>Sprintf\<close> is
  used with a format without verbs and without operands only, where it returns the format.
\<close>

fun spaced :: "string list \<Rightarrow> string" where
  "spaced [] = []"
| "spaced [x] = x"
| "spaced (x # y # ys) = x @ '' '' @ spaced (y # ys)"

definition strings_fmt :: "string fmt" where
  "strings_fmt = \<lparr>Sprint = concat, Sprintln = (\<lambda>v. spaced v @ [NL]), Sprintf = (\<lambda>f v. f)\<rparr>"

definition good_sink :: sink where
  "good_sink = \<lparr>received = [], failing = False\<rparr>"

definition bad_sink :: sink where
  "bad_sink = \<lparr>received = [], failing = True\<rparr>"

text \<open>The world right after package initialisation, with \<^verbatim>\<open>os.Stderr\<close> accepting writes.\<close>

definition world0 :: world where
  "world0 = snd (start (\<lambda>_. good_sink))"

text \<open>14:05:09 on the wall clock.\<close>

definition t_140509 :: Time where
  "t_140509 = 14 * 3600 + 5 * 60 + 9"

subsection \<open>Vocabulary of the properties\<close>

text \<open>
  The sink an instance writes to; the level check at the head of \<^verbatim>\<open>Print\<close>,
  \<^verbatim>\<open>Println\<close> and \<^verbatim>\<open>Printf\<close>, as the code computes it; an outcome that ends the process
  with a non-zero status; two logger records with the same level, prefix, flags and
  sink.
\<close>

definition sink_of :: "world \<Rightarrow> nat \<Rightarrow> sink" where
  "sink_of w a = sinks w (out (loggers w ! a))"

definition gated :: "world \<Rightarrow> nat \<Rightarrow> Level \<Rightarrow> bool" where
  "gated w a lvl \<longleftrightarrow> sint (level (loggers w ! a)) < sint (int32 lvl)"

fun exits_nonzero :: "outcome \<Rightarrow> bool" where
  "exits_nonzero (Exited n) = (n \<noteq> 0)"
| "exits_nonzero Returned = False"
| "exits_nonzero Panicked = False"

definition same_config :: "logger \<Rightarrow> logger \<Rightarrow> bool" where
  "same_config l l' \<longleftrightarrow>
     level l' = level l \<and> prefix l' = prefix l \<and> flags l' = flags l \<and> out l' = out l"

text \<open>
  The default instance with prefix \<^verbatim>\<open>APP\<close> and level \<^verbatim>\<open>LevelTrace\<close>; the start of a
  process whose \<^verbatim>\<open>os.Stderr\<close> rejects every write; the default instance with
  \<^verbatim>\<open>FlagColorMode\<close> set.
\<close>

definition world_APP :: world where
  "world_APP = SetLevel (SetPrefix world0 std ''APP'') std LevelTrace"

definition world_bad :: world where
  "world_bad = snd (start (\<lambda>_. bad_sink))"

definition world_color :: world where
  "world_color = SetFlags world0 std FlagColorMode"

text \<open>The default instance silenced with \<^verbatim>\<open>SetLevel(LevelQuiet)\<close>.\<close>

definition world_quiet :: world where
  "world_quiet = SetLevel world0 std LevelQuiet"

section \<open>Properties\<close>

subsection \<open>The code builds the line of the specification\<close>

lemmas Level_defs = LevelQuiet_def LevelFatal_def LevelError_def LevelWarn_def
  LevelInfo_def LevelDebug_def LevelTrace_def

lemma char_of_digit: "d < 10 \<Longrightarrow> char_of (48 + int d) = digit_char d"
proof -
  assume "d < 10"
  then have "d \<in> set [0..<10]" by simp
  then have "d \<in> {0, 1, 2, 3, 4, 5, 6, 7, 8, 9}"
    by (auto simp add: upt_rec)
  then show ?thesis
    by (auto simp add: digit_char_def char_of_def)
qed

lemma quo_nonneg: "0 \<le> i \<Longrightarrow> quo i 10 = i div 10"
  by (simp add: quo_def)

lemma iToA_loop_two:
  assumes "n < 100"
  shows "iToA_loop (int n) 2 19 [] = Some (int (n div 10), 18, [digit_char (n mod 10)])"
proof -
  have q: "quo (int n) 10 = int (n div 10)"
    by (simp add: quo_nonneg zdiv_int)
  have r: "48 + int n - int (n div 10) * 10 = 48 + int (n mod 10)"
    by (simp add: zmod_int zdiv_int) (metis minus_div_mult_eq_mod of_nat_numeral zdiv_int zmod_int)
  have small: "\<not> int (n div 10) \<ge> 10" using assms by simp
  have step1: "iToA_loop (int n) 2 19 [] = iToA_loop (int (n div 10)) 1 18 [digit_char (n mod 10)]"
    by (subst iToA_loop.simps) (simp add: q r char_of_digit Let_def)
  have step2: "iToA_loop (int (n div 10)) 1 18 [digit_char (n mod 10)]
      = Some (int (n div 10), 18, [digit_char (n mod 10)])"
    using small by (subst iToA_loop.simps) simp
  show ?thesis by (simp add: step1 step2)
qed

lemma iToA_two:
  assumes "n < 100"
  shows "iToA b (int n) 2 = Some (b @ spec_two_digits n)"
  using assms by (simp add: iToA_def iToA_loop_two spec_two_digits_def char_of_digit)

lemma levelPrefixes_eq:
  "(case levelPrefixes lvl of Some p \<Rightarrow> p | None \<Rightarrow> []) = spec_LevelChar lvl"
  by (simp add: levelPrefixes_def spec_LevelChar_def Level_defs)

lemma levelColors_dom: "levelColors lvl = None \<longleftrightarrow> \<not> (LevelFatal \<le> lvl \<and> lvl \<le> LevelTrace)"
  by (auto simp add: levelColors_def Level_defs)

lemma buildHeader_eq:
  "buildHeader l lvl b t = Inr (b @ spec_header (prefix l) lvl t)"
proof -
  have h: "t div 3600 mod 24 < 100" and m: "t div 60 mod 60 < 100" and s: "t mod 60 < 100"
    by (simp_all add: less_trans [OF mod_less_divisor])
  show ?thesis
    by (simp add: buildHeader_def Clock_def levelPrefixes_eq iToA_two [OF h] iToA_two [OF m]
        iToA_two [OF s] spec_header_def spec_timestamp_def)
qed

lemma printOut_eq:
  "printOut now w a lvl s =
     (let l = loggers w ! a; k = out l; line = spec_line l lvl now s
      in (Inr (if failing (sinks w k) then Some WriteError else None),
          (update_logger w a (\<lambda>l. l\<lparr>buf := line\<rparr>))
            \<lparr>sinks := (sinks w)(k := (sinks w k)\<lparr>received := received (sinks w k) @ [line]\<rparr>)\<rparr>))"
  by (simp add: printOut_def buildHeader_eq levelColors_dom colored_def spec_line_def Write_def Let_def)

subsection \<open>Level conversions and the heap\<close>

lemma sint_int32: "- (2 ^ 31) \<le> x \<Longrightarrow> x < 2 ^ 31 \<Longrightarrow> sint (int32 x) = x"
  by (simp add: int32_def sint_sbintrunc' signed_take_bit_int_eq_self)

lemma loggers_update_logger:
  "loggers (update_logger w a f) = (loggers w)[a := f (loggers w ! a)]"
  by (simp add: update_logger_def)

lemma sinks_update_logger: "sinks (update_logger w a f) = sinks w"
  by (simp add: update_logger_def)

lemma is_logger_world0: "is_logger world0 std"
  by (simp add: is_logger_def world0_def start_def New_def std_def)

subsection \<open>\<^verbatim>\<open>SetLevel\<close> clamps\<close>

text \<open>
  Claim C6. For every instance and every integer level \<open>x\<close>: after \<^verbatim>\<open>SetLevel(x)\<close>,
  \<^verbatim>\<open>GetLevel()\<close> is \<open>x\<close> when \<open>x\<close> lies between \<^verbatim>\<open>LevelQuiet\<close> and \<^verbatim>\<open>LevelTrace\<close>, is
  \<^verbatim>\<open>LevelQuiet\<close> when \<open>x\<close> is below and \<^verbatim>\<open>LevelTrace\<close> when \<open>x\<close> is above; in particular
  \<^verbatim>\<open>SetLevel(-5)\<close> gives \<^verbatim>\<open>LevelQuiet\<close> and \<^verbatim>\<open>SetLevel(999)\<close> gives \<^verbatim>\<open>LevelTrace\<close>.
  \<^verbatim>\<open>SetLevel\<close> has no failing branch: it returns the updated world for every input.
\<close>

theorem SetLevel_clamps:
  assumes "is_logger w a"
  shows "(LevelQuiet \<le> x \<and> x \<le> LevelTrace \<longrightarrow> GetLevel (SetLevel w a x) a = x)
       \<and> (x < LevelQuiet \<longrightarrow> GetLevel (SetLevel w a x) a = LevelQuiet)
       \<and> (x > LevelTrace \<longrightarrow> GetLevel (SetLevel w a x) a = LevelTrace)
       \<and> GetLevel (SetLevel w a (- 5)) a = LevelQuiet
       \<and> GetLevel (SetLevel w a 999) a = LevelTrace"
proof -
  have get: "GetLevel (SetLevel w a y) a =
      sint (int32 (if y < LevelQuiet then LevelQuiet else if y > LevelTrace then LevelTrace else y))"
    for y
    using assms
    by (simp add: GetLevel_def SetLevel_def Level_of_def loggers_update_logger is_logger_def Let_def)
  have mid: "LevelQuiet \<le> x \<and> x \<le> LevelTrace \<longrightarrow> GetLevel (SetLevel w a x) a = x"
    by (auto simp add: get sint_int32 Level_defs)
  have lo: "x < LevelQuiet \<longrightarrow> GetLevel (SetLevel w a x) a = LevelQuiet"
    by (simp add: get sint_int32 Level_defs)
  have hi: "x > LevelTrace \<longrightarrow> GetLevel (SetLevel w a x) a = LevelTrace"
    by (simp add: get sint_int32 Level_defs)
  have m5: "GetLevel (SetLevel w a (- 5)) a = LevelQuiet"
    by (simp add: get sint_int32 Level_defs)
  have b9: "GetLevel (SetLevel w a 999) a = LevelTrace"
    by (simp add: get sint_int32 Level_defs)
  from mid lo hi m5 b9 show ?thesis by blast
qed

theorem SetLevel_clamps_witness:
  "is_logger world0 std
   \<and> LevelQuiet \<le> 4 \<and> 4 \<le> LevelTrace \<and> GetLevel (SetLevel world0 std 4) std = 4
   \<and> - 5 < LevelQuiet \<and> GetLevel (SetLevel world0 std (- 5)) std = LevelQuiet
   \<and> 999 > LevelTrace \<and> GetLevel (SetLevel world0 std 999) std = LevelTrace"
  using SetLevel_clamps [OF is_logger_world0, of 4]
    SetLevel_clamps [OF is_logger_world0, of "- 5"]
    SetLevel_clamps [OF is_logger_world0, of 999]
  by (simp add: is_logger_world0 Level_defs)

subsection \<open>\<^verbatim>\<open>New\<close> stores what it is given\<close>

lemma New_fields:
  "GetPrefix (snd (New w lvl p k f)) (fst (New w lvl p k f)) = p
   \<and> GetOutput (snd (New w lvl p k f)) (fst (New w lvl p k f)) = k
   \<and> GetFlags (snd (New w lvl p k f)) (fst (New w lvl p k f)) = f
   \<and> GetLevel (snd (New w lvl p k f)) (fst (New w lvl p k f)) = sint (int32 lvl)"
  by (simp add: New_def GetLevel_def GetPrefix_def GetOutput_def GetFlags_def Level_of_def)

text \<open>
  Claim C5 says that the instance returned by \<^verbatim>\<open>New\<close> has its level clamped into the
  range from \<^verbatim>\<open>LevelQuiet\<close> to \<^verbatim>\<open>LevelTrace\<close>. \<^verbatim>\<open>New\<close> stores \<^verbatim>\<open>int32(level)\<close> as it
  is; only \<^verbatim>\<open>SetLevel\<close> clamps. Evaluated at the levels -5 and 999 of the claim: the new
  instance reports -5 and 999, both outside the range.
\<close>

theorem New_does_not_clamp:
  "GetLevel (snd (New world0 (- 5) ''APP'' Stderr 0)) (fst (New world0 (- 5) ''APP'' Stderr 0)) = - 5
   \<and> GetLevel (snd (New world0 999 ''APP'' Stderr 0)) (fst (New world0 999 ''APP'' Stderr 0)) = 999
   \<and> (- 5 :: int) < LevelQuiet \<and> (999 :: int) > LevelTrace"
  by (simp add: New_def GetLevel_def Level_of_def int32_def Level_defs)

subsection \<open>What \<^verbatim>\<open>printOut\<close> and the three methods compute\<close>

lemma printOut_fst:
  "fst (printOut now w a lvl s) =
     Inr (if failing (sinks w (out (loggers w ! a))) then Some WriteError else None)"
  by (simp add: printOut_eq Let_def)

lemma printOut_loggers:
  "loggers (snd (printOut now w a lvl s)) =
     (loggers w)[a := (loggers w ! a)\<lparr>buf := spec_line (loggers w ! a) lvl now s\<rparr>]"
  by (simp add: printOut_eq Let_def loggers_update_logger)

lemma printOut_sinks:
  "sinks (snd (printOut now w a lvl s)) =
     (sinks w)(out (loggers w ! a) :=
        (sinks w (out (loggers w ! a)))
          \<lparr>received := received (sinks w (out (loggers w ! a))) @ [spec_line (loggers w ! a) lvl now s]\<rparr>)"
  by (simp add: printOut_eq Let_def)

lemma printOut_same_config:
  "is_logger w a \<Longrightarrow> same_config (loggers w ! a) (loggers (snd (printOut now w a lvl s)) ! a)"
  by (simp add: printOut_loggers same_config_def is_logger_def)

lemma logger_Print_eq:
  "logger_Print F now w a lvl v =
     (if lvl = LevelFatal then Exited 1 else Returned,
      if gated w a lvl then w else snd (printOut now w a lvl (Sprint F v)))"
proof -
  obtain r w' where p: "printOut now w a lvl (Sprint F v) = (r, w')"
    by (cases "printOut now w a lvl (Sprint F v)")
  from printOut_fst [of now w a lvl "Sprint F v"] p obtain e where "r = Inr e" by simp
  with p show ?thesis
    by (simp add: logger_Print_def gated_def)
qed

lemma logger_Println_eq:
  "logger_Println F now w a lvl v =
     (if lvl = LevelFatal then Exited 1 else Returned,
      if gated w a lvl then w else snd (printOut now w a lvl (Sprintln F v)))"
proof -
  obtain r w' where p: "printOut now w a lvl (Sprintln F v) = (r, w')"
    by (cases "printOut now w a lvl (Sprintln F v)")
  from printOut_fst [of now w a lvl "Sprintln F v"] p obtain e where "r = Inr e" by simp
  with p show ?thesis
    by (simp add: logger_Println_def gated_def)
qed

lemma logger_Printf_eq:
  "logger_Printf F now w a lvl format v =
     (if lvl \<le> LevelFatal then Exited 1 else Returned,
      if gated w a lvl then w else snd (printOut now w a lvl (Sprintf F format v)))"
proof -
  obtain r w' where p: "printOut now w a lvl (Sprintf F format v) = (r, w')"
    by (cases "printOut now w a lvl (Sprintf F format v)")
  from printOut_fst [of now w a lvl "Sprintf F format v"] p obtain e where "r = Inr e" by simp
  with p show ?thesis
    by (simp add: logger_Printf_def gated_def)
qed

lemma world0_loggers:
  "loggers world0 = [\<lparr>level = 3, prefix = [], flags = 0, out = 0, buf = []\<rparr>]"
  by (simp add: world0_def start_def New_def int32_def Level_defs Stderr_def)

lemma world0_sinks: "sinks world0 = (\<lambda>_. good_sink)"
  by (simp add: world0_def start_def New_def)

lemma spec_timestamp_140509: "spec_timestamp t_140509 = ''14:05:09''"
  by (simp add: spec_timestamp_def t_140509_def spec_two_digits_def digit_char_def)

subsection \<open>Termination of the process\<close>

text \<open>
  Claim C1. For every instance and every requested level: \<^verbatim>\<open>Print\<close> and \<^verbatim>\<open>Println\<close> end
  the process with a non-zero exit status exactly when the level is \<^verbatim>\<open>LevelFatal\<close>, and
  \<^verbatim>\<open>Printf\<close> exactly when the level is at most \<^verbatim>\<open>LevelFatal\<close>. The stored level is
  arbitrary, so this covers the call that is gated out as well as the one that writes.
\<close>

theorem Fatal_terminates:
  assumes "is_logger w a"
  shows "(exits_nonzero (fst (logger_Print F now w a lvl v)) \<longleftrightarrow> lvl = LevelFatal)
       \<and> (exits_nonzero (fst (logger_Println F now w a lvl v)) \<longleftrightarrow> lvl = LevelFatal)
       \<and> (exits_nonzero (fst (logger_Printf F now w a lvl format v)) \<longleftrightarrow> lvl \<le> LevelFatal)"
  by (simp add: logger_Print_eq logger_Println_eq logger_Printf_eq)

theorem Fatal_terminates_witness:
  "is_logger world0 std
   \<and> \<not> gated world0 std LevelFatal
   \<and> exits_nonzero (fst (logger_Print strings_fmt t_140509 world0 std LevelFatal [''x'']))
   \<and> \<not> exits_nonzero (fst (logger_Print strings_fmt t_140509 world0 std LevelError [''x'']))
   \<and> exits_nonzero (fst (logger_Printf strings_fmt t_140509 world0 std LevelQuiet ''x'' []))
   \<and> \<not> exits_nonzero (fst (logger_Printf strings_fmt t_140509 world0 std LevelError ''x'' []))
   \<and> is_logger world_quiet std
   \<and> gated world_quiet std LevelFatal
   \<and> exits_nonzero (fst (logger_Print strings_fmt t_140509 world_quiet std LevelFatal [''x'']))"
proof -
  have open_gate: "\<not> gated world0 std LevelFatal"
    by (simp add: gated_def world0_loggers std_def int32_def Level_defs)
  have quiet: "loggers world_quiet = [\<lparr>level = 0, prefix = [], flags = 0, out = 0, buf = []\<rparr>]"
    by (simp add: world_quiet_def SetLevel_def update_logger_def world0_loggers std_def int32_def
        Level_defs)
  have inst: "is_logger world_quiet std"
    by (simp add: is_logger_def quiet std_def)
  have closed_gate: "gated world_quiet std LevelFatal"
    by (simp add: gated_def quiet std_def int32_def Level_defs)
  show ?thesis
    using Fatal_terminates [OF is_logger_world0, where F = strings_fmt and now = t_140509
          and lvl = LevelFatal and v = "[''x'']" and format = "''x''"]
      Fatal_terminates [OF is_logger_world0, where F = strings_fmt and now = t_140509
          and lvl = LevelError and v = "[''x'']" and format = "''x''"]
      Fatal_terminates [OF is_logger_world0, where F = strings_fmt and now = t_140509
          and lvl = LevelQuiet and v = "[]" and format = "''x''"]
      Fatal_terminates [OF is_logger_world0, where F = strings_fmt and now = t_140509
          and lvl = LevelError and v = "[]" and format = "''x''"]
      Fatal_terminates [OF inst, where F = strings_fmt and now = t_140509
          and lvl = LevelFatal and v = "[''x'']" and format = "''x''"]
    by (simp add: is_logger_world0 inst open_gate [unfolded LevelFatal_def]
        closed_gate [unfolded LevelFatal_def] Level_defs)
qed

subsection \<open>The level gate\<close>

text \<open>
  For a requested level that fits into 32 bits the gate is the comparison with
  \<^verbatim>\<open>GetLevel()\<close>: a gated call leaves the whole world as it was, loggers and sinks.
\<close>

lemma gated_is_silent:
  assumes "- (2 ^ 31) \<le> lvl" and "lvl < 2 ^ 31" and "GetLevel w a < lvl"
  shows "snd (logger_Print F now w a lvl v) = w"
    and "snd (logger_Println F now w a lvl v) = w"
    and "snd (logger_Printf F now w a lvl format v) = w"
  using assms
  by (simp_all add: logger_Print_eq logger_Println_eq logger_Printf_eq gated_def GetLevel_def
      Level_of_def sint_int32)

text \<open>
  Claim C2 says that a call with a level \<open>M\<close> other than \<^verbatim>\<open>LevelFatal\<close> and with
  \<^verbatim>\<open>GetLevel() < M\<close> writes nothing. The gate compares the stored level with
  \<^verbatim>\<open>int32(level)\<close>, which drops the upper bits of \<open>M\<close>. Evaluated on the default instance
  (level \<^verbatim>\<open>LevelWarn\<close>) at \<open>M = 2\<^sup>3\<^sup>2\<close>: \<^verbatim>\<open>GetLevel() < M\<close> holds, \<^verbatim>\<open>int32(M)\<close> is 0, the
  call is not gated and a line reaches the sink.
\<close>

theorem gate_compares_truncated_level:
  "GetLevel world0 std < 4294967296
   \<and> (4294967296 :: Level) \<noteq> LevelFatal
   \<and> received (sinks world0 Stderr) = []
   \<and> received (sinks (snd (logger_Print strings_fmt t_140509 world0 std 4294967296 [''x''])) Stderr)
       = [''/14:05:09 : x'' @ [NL]]"
  by (simp add: logger_Print_eq gated_def GetLevel_def Level_of_def world0_loggers world0_sinks
      std_def int32_def Level_defs printOut_sinks Stderr_def spec_line_def colored_def
      spec_header_def spec_LevelChar_def spec_timestamp_140509 strings_fmt_def good_sink_def NL_def)

subsection \<open>The fixtures, evaluated\<close>

lemma world_APP_loggers:
  "loggers world_APP = [\<lparr>level = 6, prefix = ''APP'', flags = 0, out = 0, buf = []\<rparr>]"
  by (simp add: world_APP_def SetLevel_def SetPrefix_def update_logger_def world0_loggers std_def
      int32_def Level_defs)

lemma world_APP_sinks: "sinks world_APP = (\<lambda>_. good_sink)"
  by (simp add: world_APP_def SetLevel_def SetPrefix_def update_logger_def world0_sinks)

lemma is_logger_world_APP: "is_logger world_APP std"
  by (simp add: is_logger_def world_APP_loggers std_def)

lemma world_bad_loggers:
  "loggers world_bad = [\<lparr>level = 3, prefix = [], flags = 0, out = 0, buf = []\<rparr>]"
  by (simp add: world_bad_def start_def New_def int32_def Level_defs Stderr_def)

lemma world_bad_sinks: "sinks world_bad = (\<lambda>_. bad_sink)"
  by (simp add: world_bad_def start_def New_def)

lemma is_logger_world_bad: "is_logger world_bad std"
  by (simp add: is_logger_def world_bad_loggers std_def)

lemma failing_world_bad: "failing (sink_of world_bad std)"
  by (simp add: sink_of_def world_bad_sinks bad_sink_def)

lemma open_gate_world_bad: "\<not> gated world_bad std LevelError" "\<not> gated world_bad std LevelQuiet"
  by (simp_all add: gated_def world_bad_loggers std_def int32_def Level_defs)

lemma world_color_loggers:
  "loggers world_color = [\<lparr>level = 3, prefix = [], flags = 1, out = 0, buf = []\<rparr>]"
  by (simp add: world_color_def SetFlags_def update_logger_def world0_loggers std_def
      FlagColorMode_def)

lemma world_color_sinks: "sinks world_color = (\<lambda>_. good_sink)"
  by (simp add: world_color_def SetFlags_def update_logger_def world0_sinks)

subsection \<open>The line that reaches the sink\<close>

lemma sink_of_printOut:
  "is_logger w a \<Longrightarrow>
   received (sink_of (snd (printOut now w a lvl s)) a)
     = received (sink_of w a) @ [spec_line (loggers w ! a) lvl now s]"
  by (simp add: sink_of_def printOut_loggers printOut_sinks is_logger_def)

text \<open>
  Claim C3. With \<^verbatim>\<open>FlagColorMode\<close> off, for every prefix and message body the line handed
  to the sink is the level letter, \<^verbatim>\<open>/\<close>, hour, minute and second as two zero-padded
  decimal digits each with \<^verbatim>\<open>:\<close> between them, a space, the prefix, \<^verbatim>\<open>: \<close>, the body
  and the closing newline (the one the body brings, or an appended one). It is the only
  write of the call. At 14:05:09, prefix \<^verbatim>\<open>APP\<close>, level \<^verbatim>\<open>LevelInfo\<close> and body \<^verbatim>\<open>hello\<close>
  the bytes are \<^verbatim>\<open>I/14:05:09 APP: hello\<close> and a newline.
\<close>

theorem line_layout:
  assumes "is_logger w a"
    and "flags (loggers w ! a) AND FlagColorMode = 0"
  shows "received (sink_of (snd (printOut now w a lvl s)) a) =
           received (sink_of w a) @
             [spec_LevelChar lvl @ ''/'' @
              spec_two_digits (now div 3600 mod 24) @ '':'' @
              spec_two_digits (now div 60 mod 60) @ '':'' @
              spec_two_digits (now mod 60) @ '' '' @
              GetPrefix w a @ '': '' @ s @ (if s \<noteq> [] \<and> last s = NL then [] else [NL])]"
  using assms
  by (simp add: sink_of_printOut spec_line_def colored_def spec_header_def spec_timestamp_def
      GetPrefix_def)

theorem line_layout_witness:
  "is_logger world_APP std
   \<and> flags (loggers world_APP ! std) AND FlagColorMode = 0
   \<and> received (sink_of (snd (printOut t_140509 world_APP std LevelInfo ''hello'')) std)
       = [''I/14:05:09 APP: hello'' @ [NL]]"
proof -
  have color_off: "flags (loggers world_APP ! std) AND FlagColorMode = 0"
    by (simp add: world_APP_loggers std_def FlagColorMode_def)
  have before: "received (sink_of world_APP std) = []"
    by (simp add: sink_of_def world_APP_sinks good_sink_def)
  have hh: "spec_two_digits (t_140509 div 3600 mod 24) = ''14''"
    and mm: "spec_two_digits (t_140509 div 60 mod 60) = ''05''"
    and ss: "spec_two_digits (t_140509 mod 60) = ''09''"
    by (simp_all add: t_140509_def spec_two_digits_def digit_char_def)
  have pre: "GetPrefix world_APP std = ''APP''"
    by (simp add: GetPrefix_def world_APP_loggers std_def)
  have letter: "spec_LevelChar LevelInfo = ''I''"
    by (simp add: spec_LevelChar_def Level_defs)
  show ?thesis
    using line_layout [OF is_logger_world_APP color_off, of t_140509 LevelInfo "''hello''"]
    by (simp add: is_logger_world_APP color_off before hh mm ss pre letter NL_def)
qed

text \<open>
  Claim C4. The line builder appends one newline to the body \<open>s\<close> exactly when \<open>s\<close> is
  empty or does not end with a newline; when \<open>s\<close> ends with one or more newlines nothing
  is appended and nothing is removed: the body of the line is \<open>s\<close> itself.
\<close>

theorem newline_once:
  assumes "is_logger w a"
  shows "(s = [] \<or> last s \<noteq> NL \<longrightarrow>
            received (sink_of (snd (printOut now w a lvl s)) a) =
              received (sink_of w a) @
                [(if colored (loggers w ! a) lvl then the (levelColors lvl) else []) @
                 spec_header (GetPrefix w a) lvl now @ s @ [NL] @
                 (if colored (loggers w ! a) lvl then ESC # ''[0m'' else [])])
       \<and> (s \<noteq> [] \<and> last s = NL \<longrightarrow>
            received (sink_of (snd (printOut now w a lvl s)) a) =
              received (sink_of w a) @
                [(if colored (loggers w ! a) lvl then the (levelColors lvl) else []) @
                 spec_header (GetPrefix w a) lvl now @ s @
                 (if colored (loggers w ! a) lvl then ESC # ''[0m'' else [])])"
  using assms
  by (simp add: sink_of_printOut spec_line_def GetPrefix_def)

theorem newline_once_witness:
  "is_logger world_APP std
   \<and> received (sink_of (snd (printOut t_140509 world_APP std LevelInfo ''hello'')) std)
       = [''I/14:05:09 APP: hello'' @ [NL]]
   \<and> received (sink_of (snd (printOut t_140509 world_APP std LevelInfo (''hello'' @ [NL]))) std)
       = [''I/14:05:09 APP: hello'' @ [NL]]
   \<and> received (sink_of (snd (printOut t_140509 world_APP std LevelInfo (''hello'' @ [NL, NL]))) std)
       = [''I/14:05:09 APP: hello'' @ [NL, NL]]
   \<and> received (sink_of (snd (printOut t_140509 world_APP std LevelInfo [])) std)
       = [''I/14:05:09 APP: '' @ [NL]]"
proof -
  have plain: "\<not> colored (loggers world_APP ! std) LevelInfo"
    by (simp add: colored_def world_APP_loggers std_def FlagColorMode_def)
  have before: "received (sink_of world_APP std) = []"
    by (simp add: sink_of_def world_APP_sinks good_sink_def)
  have header: "spec_header (GetPrefix world_APP std) LevelInfo t_140509 = ''I/14:05:09 APP: ''"
    by (simp add: spec_header_def GetPrefix_def world_APP_loggers std_def spec_LevelChar_def
        Level_defs spec_timestamp_140509)
  show ?thesis
    using newline_once [OF is_logger_world_APP, of "''hello''" t_140509 LevelInfo]
      newline_once [OF is_logger_world_APP, of "''hello'' @ [NL]" t_140509 LevelInfo]
      newline_once [OF is_logger_world_APP, of "''hello'' @ [NL, NL]" t_140509 LevelInfo]
      newline_once [OF is_logger_world_APP, of "[]" t_140509 LevelInfo]
    by (simp add: is_logger_world_APP plain before header NL_def)
qed


subsection \<open>A failing sink\<close>

text \<open>
  Claim C9 says that every call that is not gated and whose level is not \<^verbatim>\<open>LevelFatal\<close>
  returns normally when the sink rejects the write. \<^verbatim>\<open>Printf\<close> with \<^verbatim>\<open>LevelQuiet\<close> is
  such a call, and it ends the process: its test is \<^verbatim>\<open>level <= LevelFatal\<close>.
\<close>

theorem Printf_Quiet_exits_on_failed_write:
  "is_logger world_bad std \<and> failing (sink_of world_bad std) \<and> \<not> gated world_bad std LevelQuiet
   \<and> LevelQuiet \<noteq> LevelFatal
   \<and> fst (logger_Printf strings_fmt t_140509 world_bad std LevelQuiet ''x'' []) = Exited 1
   \<and> fst (logger_Printf strings_fmt t_140509 world_bad std LevelQuiet ''x'' []) \<noteq> Returned"
proof -
  have lv: "LevelQuiet \<noteq> LevelFatal" "LevelQuiet \<le> LevelFatal"
    by (simp_all add: Level_defs)
  have ex: "fst (logger_Printf strings_fmt t_140509 world_bad std LevelQuiet ''x'' []) = Exited 1"
    by (simp add: logger_Printf_eq lv)
  show ?thesis
    by (simp add: is_logger_world_bad failing_world_bad open_gate_world_bad(2) lv ex)
qed

text \<open>
  Claim C9, amended. For every sink that rejects the write and every call that is not
  gated, to \<^verbatim>\<open>Print\<close> or \<^verbatim>\<open>Println\<close> with a level other than \<^verbatim>\<open>LevelFatal\<close> or to
  \<^verbatim>\<open>Printf\<close> with a level above \<^verbatim>\<open>LevelFatal\<close>: \<^verbatim>\<open>printOut\<close> gets the error from the
  sink, the call returns normally (an outcome carries no error value), the sink has
  been called once with the line, and level, prefix, flags and sink of the instance are
  as before.
\<close>

theorem write_error_is_dropped:
  assumes "is_logger w a" and "failing (sink_of w a)" and "\<not> gated w a lvl"
  shows "(lvl \<noteq> LevelFatal \<longrightarrow>
            fst (printOut now w a lvl (Sprint F v)) = Inr (Some WriteError)
          \<and> fst (logger_Print F now w a lvl v) = Returned
          \<and> same_config (loggers w ! a) (loggers (snd (logger_Print F now w a lvl v)) ! a)
          \<and> received (sink_of (snd (logger_Print F now w a lvl v)) a)
              = received (sink_of w a) @ [spec_line (loggers w ! a) lvl now (Sprint F v)])
       \<and> (lvl \<noteq> LevelFatal \<longrightarrow>
            fst (printOut now w a lvl (Sprintln F v)) = Inr (Some WriteError)
          \<and> fst (logger_Println F now w a lvl v) = Returned
          \<and> same_config (loggers w ! a) (loggers (snd (logger_Println F now w a lvl v)) ! a)
          \<and> received (sink_of (snd (logger_Println F now w a lvl v)) a)
              = received (sink_of w a) @ [spec_line (loggers w ! a) lvl now (Sprintln F v)])
       \<and> (LevelFatal < lvl \<longrightarrow>
            fst (printOut now w a lvl (Sprintf F format v)) = Inr (Some WriteError)
          \<and> fst (logger_Printf F now w a lvl format v) = Returned
          \<and> same_config (loggers w ! a) (loggers (snd (logger_Printf F now w a lvl format v)) ! a)
          \<and> received (sink_of (snd (logger_Printf F now w a lvl format v)) a)
              = received (sink_of w a) @ [spec_line (loggers w ! a) lvl now (Sprintf F format v)])"
proof -
  have err: "fst (printOut now w a lvl s) = Inr (Some WriteError)" for s
    using assms(2) by (simp add: printOut_fst sink_of_def)
  have cfg: "same_config (loggers w ! a) (loggers (snd (printOut now w a lvl s)) ! a)" for s
    using assms(1) by (rule printOut_same_config)
  have one: "received (sink_of (snd (printOut now w a lvl s)) a)
      = received (sink_of w a) @ [spec_line (loggers w ! a) lvl now s]" for s
    using assms(1) by (rule sink_of_printOut)
  show ?thesis
    using assms(3) by (simp add: logger_Print_eq logger_Println_eq logger_Printf_eq err cfg one)
qed

theorem write_error_is_dropped_witness:
  "is_logger world_bad std \<and> failing (sink_of world_bad std) \<and> \<not> gated world_bad std LevelError
   \<and> LevelError \<noteq> LevelFatal \<and> LevelFatal < LevelError
   \<and> fst (logger_Print strings_fmt t_140509 world_bad std LevelError [''x'']) = Returned
   \<and> fst (logger_Println strings_fmt t_140509 world_bad std LevelError [''x'']) = Returned
   \<and> fst (logger_Printf strings_fmt t_140509 world_bad std LevelError ''x'' []) = Returned
   \<and> received (sink_of (snd (logger_Print strings_fmt t_140509 world_bad std LevelError [''x''])) std)
       = [''E/14:05:09 : x'' @ [NL]]"
proof -
  have before: "received (sink_of world_bad std) = []"
    by (simp add: sink_of_def world_bad_sinks bad_sink_def)
  have line: "spec_line (loggers world_bad ! std) LevelError t_140509 ''x'' = ''E/14:05:09 : x'' @ [NL]"
    by (simp add: spec_line_def colored_def world_bad_loggers std_def spec_header_def
        spec_LevelChar_def Level_defs spec_timestamp_140509 NL_def)
  have lv: "LevelError \<noteq> LevelFatal" "LevelFatal < LevelError"
    by (simp_all add: Level_defs)
  show ?thesis
    using write_error_is_dropped [OF is_logger_world_bad failing_world_bad open_gate_world_bad(1),
        where F = strings_fmt and now = t_140509 and v = "[''x'']" and format = "''x''"]
      write_error_is_dropped [OF is_logger_world_bad failing_world_bad open_gate_world_bad(1),
        where F = strings_fmt and now = t_140509 and v = "[]" and format = "''x''"]
    by (simp add: is_logger_world_bad failing_world_bad open_gate_world_bad lv before line
        strings_fmt_def)
qed

subsection \<open>A message at \<^verbatim>\<open>LevelQuiet\<close>\<close>

text \<open>
  Claim C10. For every instance whose stored level lies between \<^verbatim>\<open>LevelQuiet\<close> and
  \<^verbatim>\<open>LevelTrace\<close>, \<^verbatim>\<open>Print\<close> and \<^verbatim>\<open>Println\<close> with \<^verbatim>\<open>LevelQuiet\<close> are not gated: they
  write a line that starts with \<^verbatim>\<open>/\<close> (no level letter), without colour codes whatever
  the flags are, and they return.
\<close>

theorem Quiet_message_is_written:
  assumes "is_logger w a" and "LevelQuiet \<le> GetLevel w a" and "GetLevel w a \<le> LevelTrace"
  shows "\<not> gated w a LevelQuiet
       \<and> fst (logger_Print F now w a LevelQuiet v) = Returned
       \<and> received (sink_of (snd (logger_Print F now w a LevelQuiet v)) a)
           = received (sink_of w a) @
               [''/'' @ spec_timestamp now @ '' '' @ GetPrefix w a @ '': '' @ Sprint F v @
                (if Sprint F v \<noteq> [] \<and> last (Sprint F v) = NL then [] else [NL])]
       \<and> fst (logger_Println F now w a LevelQuiet v) = Returned
       \<and> received (sink_of (snd (logger_Println F now w a LevelQuiet v)) a)
           = received (sink_of w a) @
               [''/'' @ spec_timestamp now @ '' '' @ GetPrefix w a @ '': '' @ Sprintln F v @
                (if Sprintln F v \<noteq> [] \<and> last (Sprintln F v) = NL then [] else [NL])]"
proof -
  have g: "\<not> gated w a LevelQuiet"
    using assms(2) by (simp add: gated_def GetLevel_def Level_of_def int32_def Level_defs)
  have line: "spec_line (loggers w ! a) LevelQuiet now s
      = ''/'' @ spec_timestamp now @ '' '' @ GetPrefix w a @ '': '' @ s @
        (if s \<noteq> [] \<and> last s = NL then [] else [NL])" for s
    by (simp add: spec_line_def colored_def spec_header_def spec_LevelChar_def GetPrefix_def
        Level_defs)
  have one: "received (sink_of (snd (printOut now w a LevelQuiet s)) a)
      = received (sink_of w a) @ [spec_line (loggers w ! a) LevelQuiet now s]" for s
    using assms(1) by (rule sink_of_printOut)
  have nf: "LevelQuiet \<noteq> LevelFatal" by (simp add: Level_defs)
  show ?thesis
    using g by (simp add: logger_Print_eq logger_Println_eq nf one line)
qed

theorem Quiet_message_is_written_witness:
  "is_logger world_color std
   \<and> LevelQuiet \<le> GetLevel world_color std \<and> GetLevel world_color std \<le> LevelTrace
   \<and> GetFlags world_color std AND FlagColorMode \<noteq> 0
   \<and> fst (logger_Print strings_fmt t_140509 world_color std LevelQuiet [''x'']) = Returned
   \<and> received (sink_of (snd (logger_Print strings_fmt t_140509 world_color std LevelQuiet [''x''])) std)
       = [''/14:05:09 : x'' @ [NL]]
   \<and> received (sink_of (snd (logger_Println strings_fmt t_140509 world_color std LevelQuiet [''x''])) std)
       = [''/14:05:09 : x'' @ [NL]]"
proof -
  have inst: "is_logger world_color std"
    by (simp add: is_logger_def world_color_loggers std_def)
  have lo: "LevelQuiet \<le> GetLevel world_color std" and hi: "GetLevel world_color std \<le> LevelTrace"
    by (simp_all add: GetLevel_def Level_of_def world_color_loggers std_def Level_defs)
  have fl: "GetFlags world_color std AND FlagColorMode \<noteq> 0"
    by (simp add: GetFlags_def world_color_loggers std_def FlagColorMode_def)
  have before: "received (sink_of world_color std) = []"
    by (simp add: sink_of_def world_color_sinks good_sink_def)
  have pre: "GetPrefix world_color std = []"
    by (simp add: GetPrefix_def world_color_loggers std_def)
  show ?thesis
    using Quiet_message_is_written [OF inst lo hi, of strings_fmt t_140509 "[''x'']"]
    by (simp add: inst lo hi fl before pre spec_timestamp_140509 strings_fmt_def NL_def)
qed

subsection \<open>The package-level \<^verbatim>\<open>Println\<close>\<close>

text \<open>
  Claim C7 says that the package-level \<^verbatim>\<open>Println\<close> behaves as the \<^verbatim>\<open>Println\<close> method of
  the default instance. The function calls \<^verbatim>\<open>std.Printf\<close>: its second parameter is a
  format, and it ends the process for every level up to \<^verbatim>\<open>LevelFatal\<close>. Evaluated at
  \<^verbatim>\<open>LevelQuiet\<close> on the default instance: the function exits with status 1 where the
  method returns.
\<close>

theorem free_Println_calls_Printf:
  "Println F now w lvl format v = logger_Printf F now w (GetDefault w) lvl format v
   \<and> fst (Println strings_fmt t_140509 world0 LevelQuiet ''x'' []) = Exited 1
   \<and> fst (logger_Println strings_fmt t_140509 world0 (GetDefault world0) LevelQuiet [''x'']) = Returned"
  by (simp add: Println_def GetDefault_def logger_Printf_eq logger_Println_eq Level_defs)


subsection \<open>\<^verbatim>\<open>Clone\<close>\<close>

lemma update_logger_other:
  "a \<noteq> b \<Longrightarrow> loggers (update_logger u b f) ! a = loggers u ! a"
  by (simp add: loggers_update_logger)

lemma setters_other:
  assumes "a \<noteq> b"
  shows "loggers (SetLevel u b lv) ! a = loggers u ! a"
    and "loggers (SetFlags u b fl) ! a = loggers u ! a"
    and "loggers (SetOutput u b k) ! a = loggers u ! a"
    and "loggers (SetPrefix u b p) ! a = loggers u ! a"
  using assms
  by (simp_all add: SetLevel_def SetFlags_def SetOutput_def SetPrefix_def update_logger_other Let_def)

lemma Clone_fst: "fst (Clone w a) = length (loggers w)"
  by (simp add: Clone_def New_def Let_def)

lemma Clone_loggers:
  "loggers (snd (Clone w a)) =
     loggers w @ [\<lparr>level = level (loggers w ! a), prefix = prefix (loggers w ! a),
                   flags = flags (loggers w ! a), out = out (loggers w ! a), buf = []\<rparr>]"
  by (simp add: Clone_def New_def Let_def int32_def Level_of_def)

lemma Clone_sinks: "sinks (snd (Clone w a)) = sinks w"
  by (simp add: Clone_def New_def Let_def)

text \<open>
  Claim C8. For every instance, \<^verbatim>\<open>Clone\<close> returns a new instance (an address that was not
  in use) with the level, prefix, flags and sink of the source, and leaves the source
  as it was. From then on, in every world, \<^verbatim>\<open>SetLevel\<close>, \<^verbatim>\<open>SetFlags\<close>, \<^verbatim>\<open>SetOutput\<close> and
  \<^verbatim>\<open>SetPrefix\<close> on the clone leave the record of the source untouched, and the same
  setters on the source leave the record of the clone untouched; in particular
  \<^verbatim>\<open>SetPrefix("X")\<close> on the clone does not change the prefix of the source. Writing a
  line through one of them does not touch the record of the other either: each has its
  own buffer. The sink is copied as a reference.
\<close>

theorem Clone_is_independent:
  assumes "is_logger w a"
  shows "fst (Clone w a) \<noteq> a
       \<and> \<not> is_logger w (fst (Clone w a))
       \<and> is_logger (snd (Clone w a)) (fst (Clone w a))
       \<and> is_logger (snd (Clone w a)) a
       \<and> loggers (snd (Clone w a)) ! a = loggers w ! a
       \<and> GetLevel (snd (Clone w a)) (fst (Clone w a)) = GetLevel w a
       \<and> GetPrefix (snd (Clone w a)) (fst (Clone w a)) = GetPrefix w a
       \<and> GetFlags (snd (Clone w a)) (fst (Clone w a)) = GetFlags w a
       \<and> GetOutput (snd (Clone w a)) (fst (Clone w a)) = GetOutput w a
       \<and> GetPrefix (SetPrefix (snd (Clone w a)) (fst (Clone w a)) ''X'') a = GetPrefix w a
       \<and> (\<forall>u lv fl k p.
            loggers (SetLevel u (fst (Clone w a)) lv) ! a = loggers u ! a
          \<and> loggers (SetFlags u (fst (Clone w a)) fl) ! a = loggers u ! a
          \<and> loggers (SetOutput u (fst (Clone w a)) k) ! a = loggers u ! a
          \<and> loggers (SetPrefix u (fst (Clone w a)) p) ! a = loggers u ! a
          \<and> loggers (SetLevel u a lv) ! fst (Clone w a) = loggers u ! fst (Clone w a)
          \<and> loggers (SetFlags u a fl) ! fst (Clone w a) = loggers u ! fst (Clone w a)
          \<and> loggers (SetOutput u a k) ! fst (Clone w a) = loggers u ! fst (Clone w a)
          \<and> loggers (SetPrefix u a p) ! fst (Clone w a) = loggers u ! fst (Clone w a))
       \<and> (\<forall>u now lvl s.
            loggers (snd (printOut now u (fst (Clone w a)) lvl s)) ! a = loggers u ! a
          \<and> loggers (snd (printOut now u a lvl s)) ! fst (Clone w a) = loggers u ! fst (Clone w a))"
proof -
  let ?c = "fst (Clone w a)" and ?w = "snd (Clone w a)"
  from assms have lt: "a < length (loggers w)" by (simp add: is_logger_def)
  then have ne: "?c \<noteq> a" and ne': "a \<noteq> ?c" by (simp_all add: Clone_fst)
  have fresh: "\<not> is_logger w ?c" by (simp add: is_logger_def Clone_fst)
  have inst: "is_logger ?w ?c" "is_logger ?w a"
    using lt by (simp_all add: is_logger_def Clone_fst Clone_loggers)
  have src: "loggers ?w ! a = loggers w ! a"
    using lt by (simp add: Clone_loggers nth_append)
  have copy: "GetLevel ?w ?c = GetLevel w a" "GetPrefix ?w ?c = GetPrefix w a"
    "GetFlags ?w ?c = GetFlags w a" "GetOutput ?w ?c = GetOutput w a"
    by (simp_all add: GetLevel_def GetPrefix_def GetFlags_def GetOutput_def Clone_fst Clone_loggers)
  have x: "GetPrefix (SetPrefix ?w ?c ''X'') a = GetPrefix w a"
    using setters_other(4) [OF ne', of ?w "''X''"] by (simp add: GetPrefix_def src)
  have frame: "\<forall>u lv fl k p.
            loggers (SetLevel u ?c lv) ! a = loggers u ! a
          \<and> loggers (SetFlags u ?c fl) ! a = loggers u ! a
          \<and> loggers (SetOutput u ?c k) ! a = loggers u ! a
          \<and> loggers (SetPrefix u ?c p) ! a = loggers u ! a
          \<and> loggers (SetLevel u a lv) ! ?c = loggers u ! ?c
          \<and> loggers (SetFlags u a fl) ! ?c = loggers u ! ?c
          \<and> loggers (SetOutput u a k) ! ?c = loggers u ! ?c
          \<and> loggers (SetPrefix u a p) ! ?c = loggers u ! ?c"
    by (simp add: setters_other [OF ne] setters_other [OF ne'])
  have scratch: "\<forall>u now lvl s.
            loggers (snd (printOut now u ?c lvl s)) ! a = loggers u ! a
          \<and> loggers (snd (printOut now u a lvl s)) ! ?c = loggers u ! ?c"
    using ne by (simp add: printOut_loggers)
  from ne fresh inst src copy x frame scratch show ?thesis by blast
qed

theorem Clone_is_independent_witness:
  "is_logger world_APP std
   \<and> fst (Clone world_APP std) \<noteq> std
   \<and> GetPrefix (snd (Clone world_APP std)) (fst (Clone world_APP std)) = ''APP''
   \<and> GetLevel (snd (Clone world_APP std)) (fst (Clone world_APP std)) = LevelTrace
   \<and> GetPrefix (SetPrefix (snd (Clone world_APP std)) (fst (Clone world_APP std)) ''X'') std = ''APP''
   \<and> GetPrefix (SetPrefix (snd (Clone world_APP std)) std ''Y'') (fst (Clone world_APP std)) = ''APP''"
proof -
  note ind = Clone_is_independent [OF is_logger_world_APP]
  have src: "GetPrefix world_APP std = ''APP''" "GetLevel world_APP std = LevelTrace"
    by (simp_all add: GetPrefix_def GetLevel_def Level_of_def world_APP_loggers std_def Level_defs)
  from ind have ne: "fst (Clone world_APP std) \<noteq> std" by blast
  from ind src have pre: "GetPrefix (snd (Clone world_APP std)) (fst (Clone world_APP std)) = ''APP''"
    by simp
  from ind src have lev: "GetLevel (snd (Clone world_APP std)) (fst (Clone world_APP std)) = LevelTrace"
    by simp
  from ind src have x:
    "GetPrefix (SetPrefix (snd (Clone world_APP std)) (fst (Clone world_APP std)) ''X'') std = ''APP''"
    by simp
  from ind have "loggers (SetPrefix (snd (Clone world_APP std)) std ''Y'') ! fst (Clone world_APP std)
      = loggers (snd (Clone world_APP std)) ! fst (Clone world_APP std)"
    by blast
  with pre have y:
    "GetPrefix (SetPrefix (snd (Clone world_APP std)) std ''Y'') (fst (Clone world_APP std)) = ''APP''"
    by (simp add: GetPrefix_def)
  from ne pre lev x y show ?thesis
    by (simp add: is_logger_world_APP)
qed


end
